theory Spec2Isabelle
  imports Main "HOL-Library.Sublist"
begin

section \<open>The log filter script \<^verbatim>\<open>parse_logs.py\<close>\<close>

text \<open>
  The script reads \<^verbatim>\<open>logs/log20251226.json\<close> with \<^verbatim>\<open>readlines\<close>, scans the lines
  from the last to the first, and writes a record to \<^verbatim>\<open>recent_spotify_errors.txt\<close>
  for each line that passes a substring test on the raw text, decodes as JSON and has
  \<^verbatim>\<open>'Spotify'\<close> in its \<^verbatim>\<open>@mt\<close> field, until a counter reaches 30.

  A Python \<^verbatim>\<open>str\<close> is modelled as a \<^typ>\<open>string\<close>, one \<^typ>\<open>char\<close> for each code point
  (so the model covers text whose code points are below 256). The decoder
  \<^verbatim>\<open>json.loads\<close> belongs to the standard library, not to the script: it is a parameter
  \<open>loads\<close> of the model, with \<open>None\<close> for every exception it can raise.
\<close>

subsection \<open>Python values and the operations the script applies to them\<close>

text \<open>
  What \<^verbatim>\<open>json.loads\<close> can return. A float is carried as the text Python prints for
  it, since the script does nothing with a float but print it. A \<^verbatim>\<open>dict\<close> is an
  association list read with \<^const>\<open>map_of\<close>.
\<close>

datatype json = JNull | JBool bool | JInt int | JFloat string | JStr string
  | JList "json list" | JDict "(string \<times> json) list"

datatype pyerr = JSONDecodeError | AttributeError | TypeError | KeyError

text \<open>Sequencing of expressions that can raise.\<close>

definition and_then :: "pyerr + 'a \<Rightarrow> ('a \<Rightarrow> pyerr + 'b) \<Rightarrow> pyerr + 'b" where
  "and_then x f = (case x of Inl e \<Rightarrow> Inl e | Inr v \<Rightarrow> f v)"

text \<open>\<^verbatim>\<open>v.get(k, d)\<close>: only a \<^verbatim>\<open>dict\<close> has the method.\<close>

definition dict_get :: "(string \<times> json) list \<Rightarrow> string \<Rightarrow> json \<Rightarrow> json" where
  "dict_get kvs k d = (case map_of kvs k of None \<Rightarrow> d | Some v \<Rightarrow> v)"

fun py_get :: "json \<Rightarrow> string \<Rightarrow> json \<Rightarrow> pyerr + json" where
  "py_get (JDict kvs) k d = Inr (dict_get kvs k d)"
| "py_get _ k d = Inl AttributeError"

text \<open>
  \<^verbatim>\<open>k in v\<close> for a string \<open>k\<close>: a substring test on a \<^verbatim>\<open>str\<close>, an element test on a
  \<^verbatim>\<open>list\<close>, a key test on a \<^verbatim>\<open>dict\<close>, and a \<^verbatim>\<open>TypeError\<close> on
  \<^verbatim>\<open>None\<close>, a \<^verbatim>\<open>bool\<close> and a number.
\<close>

fun py_in :: "string \<Rightarrow> json \<Rightarrow> pyerr + bool" where
  "py_in k (JStr s) = Inr (sublist k s)"
| "py_in k (JList xs) = Inr (JStr k \<in> set xs)"
| "py_in k (JDict kvs) = Inr (k \<in> set (map fst kvs))"
| "py_in k _ = Inl TypeError"

text \<open>\<^verbatim>\<open>v[k]\<close> for a string \<open>k\<close>.\<close>

fun py_getitem :: "json \<Rightarrow> string \<Rightarrow> pyerr + json" where
  "py_getitem (JDict kvs) k = (case map_of kvs k of None \<Rightarrow> Inl KeyError | Some v \<Rightarrow> Inr v)"
| "py_getitem _ k = Inl TypeError"

text \<open>
  \<^verbatim>\<open>v[:n]\<close>: a \<^verbatim>\<open>str\<close> and a \<^verbatim>\<open>list\<close> can be sliced; a slice is no key of a
  \<^verbatim>\<open>dict\<close> (a \<^verbatim>\<open>KeyError\<close> since Python 3.12, a \<^verbatim>\<open>TypeError\<close> before, where a
  slice cannot be hashed), and the other values are not subscriptable. The script
  catches every exception, so only the fact that one is raised matters.
\<close>

fun py_slice :: "nat \<Rightarrow> json \<Rightarrow> pyerr + json" where
  "py_slice n (JStr s) = Inr (JStr (take n s))"
| "py_slice n (JList xs) = Inr (JList (take n xs))"
| "py_slice n (JDict kvs) = Inl KeyError"
| "py_slice n _ = Inl TypeError"

subsection \<open>Printing values: \<^verbatim>\<open>str\<close> and \<^verbatim>\<open>repr\<close>\<close>

text \<open>
  The digit of a number below 16, for decimal and hexadecimal numerals; it is only
  applied to such numbers.
\<close>

definition digit_char :: "nat \<Rightarrow> char" where
  "digit_char d = ''0123456789abcdef'' ! d"

fun str_nat :: "nat \<Rightarrow> string" where
  "str_nat n =
     (if n < 10 then [digit_char n]
      else str_nat (n div 10) @ [digit_char (n mod 10)])"

declare str_nat.simps [simp del]

definition str_int :: "int \<Rightarrow> string" where
  "str_int i = (if i < 0 then CHR ''-'' # str_nat (nat (- i)) else str_nat (nat i))"

text \<open>
  One character of \<^verbatim>\<open>repr\<close> of a \<^verbatim>\<open>str\<close>, inside the quote \<open>q\<close>: the quote and the
  backslash are escaped, tab, newline and carriage return have their letters, and every
  other code point that is not printable is written \<^verbatim>\<open>\xhh\<close>.
\<close>

definition repr_char :: "char \<Rightarrow> char \<Rightarrow> string" where
  "repr_char q c =
     (let n = (of_char c :: nat) in
      if c = q \<or> c = CHR 0x5C then [CHR 0x5C, c]
      else if c = CHR 0x09 then [CHR 0x5C, CHR ''t'']
      else if c = CHR 0x0A then [CHR 0x5C, CHR ''n'']
      else if c = CHR 0x0D then [CHR 0x5C, CHR ''r'']
      else if n < 32 \<or> n = 127 \<or> (128 \<le> n \<and> n \<le> 160) \<or> n = 173
        then [CHR 0x5C, CHR ''x'', digit_char (n div 16), digit_char (n mod 16)]
      else [c])"

definition repr_str :: "string \<Rightarrow> string" where
  "repr_str s =
     (let q = (if CHR 0x27 \<in> set s \<and> CHR 0x22 \<notin> set s then CHR 0x22 else CHR 0x27)
      in q # concat (map (repr_char q) s) @ [q])"

text \<open>\<^verbatim>\<open>sep.join(xs)\<close>.\<close>

fun join :: "string \<Rightarrow> string list \<Rightarrow> string" where
  "join sep [] = []"
| "join sep [x] = x"
| "join sep (x # y # ys) = x @ sep @ join sep (y # ys)"

fun py_repr :: "json \<Rightarrow> string" where
  "py_repr JNull = ''None''"
| "py_repr (JBool b) = (if b then ''True'' else ''False'')"
| "py_repr (JInt i) = str_int i"
| "py_repr (JFloat r) = r"
| "py_repr (JStr s) = repr_str s"
| "py_repr (JList xs) = ''['' @ join '', '' (map py_repr xs) @ '']''"
| "py_repr (JDict kvs) =
     ''{'' @ join '', '' (map (\<lambda>kv. repr_str (fst kv) @ '': '' @ py_repr (snd kv)) kvs) @ ''}''"

text \<open>What a replacement field \<^verbatim>\<open>{v}\<close> of an f-string prints.\<close>

definition py_str :: "json \<Rightarrow> string" where
  "py_str v = (case v of JStr s \<Rightarrow> s | _ \<Rightarrow> py_repr v)"

subsection \<open>The loop\<close>

text \<open>
  The state the loop changes: the strings written to \<^verbatim>\<open>outfile\<close> so far, one for each
  call of \<^verbatim>\<open>outfile.write\<close> in the order of the calls, and the counter.
\<close>

record scan_state =
  outfile :: "string list"
  count :: nat

text \<open>
  A statement takes the state and returns the exception it raised, if any, with the
  state at that moment: what was written before an exception stays written.
\<close>

type_synonym stmt = "scan_state \<Rightarrow> pyerr option \<times> scan_state"

definition raise :: "pyerr \<Rightarrow> stmt" where
  "raise e st = (Some e, st)"

definition pass :: stmt where
  "pass st = (None, st)"

definition seq :: "stmt \<Rightarrow> stmt \<Rightarrow> stmt" where
  "seq s1 s2 st = (case s1 st of (None, st') \<Rightarrow> s2 st' | (Some e, st') \<Rightarrow> (Some e, st'))"

definition if_stmt :: "pyerr + bool \<Rightarrow> stmt \<Rightarrow> stmt" where
  "if_stmt c s = (case c of Inl e \<Rightarrow> raise e | Inr b \<Rightarrow> (if b then s else pass))"

text \<open>\<^verbatim>\<open>outfile.write(x)\<close>: the argument is evaluated first, and may raise.\<close>

definition outfile_write :: "pyerr + string \<Rightarrow> stmt" where
  "outfile_write x st =
     (case x of Inl e \<Rightarrow> (Some e, st)
      | Inr s \<Rightarrow> (None, st\<lparr>outfile := outfile st @ [s]\<rparr>))"

definition incr_count :: stmt where
  "incr_count st = (None, st\<lparr>count := count st + 1\<rparr>)"

text \<open>The four f-strings.\<close>

definition main_line :: "json \<Rightarrow> json \<Rightarrow> pyerr + string" where
  "main_line entry msg =
     and_then (py_get entry ''@t'' JNull) (\<lambda>t.
     and_then (py_get entry ''@l'' JNull) (\<lambda>l.
       Inr (''['' @ py_str t @ ''] '' @ py_str l @ '': '' @ py_str msg @ ''\<newline>'')))"

definition status_line :: "json \<Rightarrow> pyerr + string" where
  "status_line entry =
     and_then (py_getitem entry ''Status'') (\<lambda>v.
       Inr (''   Status: '' @ py_str v @ ''\<newline>''))"

definition response_line :: "json \<Rightarrow> pyerr + string" where
  "response_line entry =
     and_then (py_getitem entry ''Response'') (\<lambda>v.
       Inr (''   Response: '' @ py_str v @ ''\<newline>''))"

definition exception_line :: "json \<Rightarrow> pyerr + string" where
  "exception_line entry =
     and_then (py_getitem entry ''@x'') (\<lambda>v.
     and_then (py_slice 500 v) (\<lambda>x.
       Inr (''   Exception: '' @ py_str x @ ''...\<newline>'')))"

text \<open>The lexical test on the raw line.\<close>

definition prefilter :: "string \<Rightarrow> bool" where
  \<open>prefilter line \<longleftrightarrow> sublist ''"@l":"Error"'' line \<or> sublist ''"@l":"Warning"'' line\<close>

text \<open>The body of the \<^verbatim>\<open>try\<close>.\<close>

definition try_block :: "(string \<Rightarrow> json option) \<Rightarrow> string \<Rightarrow> stmt" where
  "try_block loads line =
     (case loads line of
        None \<Rightarrow> raise JSONDecodeError
      | Some entry \<Rightarrow>
          (case py_get entry ''@mt'' (JStr '''') of
             Inl e \<Rightarrow> raise e
           | Inr msg \<Rightarrow>
               if_stmt (py_in ''Spotify'' msg)
                 (seq (outfile_write (main_line entry msg))
                 (seq (if_stmt (py_in ''Status'' entry) (outfile_write (status_line entry)))
                 (seq (if_stmt (py_in ''Response'' entry) (outfile_write (response_line entry)))
                 (seq (if_stmt (py_in ''@x'' entry) (outfile_write (exception_line entry)))
                      incr_count))))))"

text \<open>
  One line of the loop, after the test of the counter: the \<^verbatim>\<open>except: pass\<close> drops
  whatever the \<^verbatim>\<open>try\<close> raised and keeps the state.
\<close>

definition body :: "(string \<Rightarrow> json option) \<Rightarrow> scan_state \<Rightarrow> string \<Rightarrow> scan_state" where
  "body loads st line = (if prefilter line then snd (try_block loads line st) else st)"

text \<open>The \<^verbatim>\<open>for\<close> loop over the lines it is given, with its \<^verbatim>\<open>break\<close>.\<close>

fun scan :: "(string \<Rightarrow> json option) \<Rightarrow> scan_state \<Rightarrow> string list \<Rightarrow> scan_state" where
  "scan loads st [] = st"
| "scan loads st (line # rest) =
     (if count st \<ge> 30 then st else scan loads (body loads st line) rest)"

text \<open>The state in which the loop starts.\<close>

definition start :: scan_state where
  "start = \<lparr>outfile = [], count = 0\<rparr>"

subsection \<open>The script\<close>

text \<open>
  The world the script runs in: what \<^verbatim>\<open>readlines\<close> returns for the log file
  (\<open>None\<close> when \<^verbatim>\<open>os.path.exists\<close> is false), the text of the output file (\<open>None\<close>
  when there is no such file), the lines printed, and whether the script left through
  \<^verbatim>\<open>exit()\<close>.
\<close>

record world =
  log_file :: "string list option"
  recent_spotify_errors :: "string option"
  stdout :: "string list"
  exited :: bool

definition run :: "(string \<Rightarrow> json option) \<Rightarrow> world \<Rightarrow> world" where
  "run loads w =
     (case log_file w of
        None \<Rightarrow> w\<lparr>stdout := stdout w @ [''Log file not found''], exited := True\<rparr>
      | Some lines \<Rightarrow>
          w\<lparr>stdout := stdout w @
               [''Total lines: '' @ str_nat (length lines),
                ''Last 10 Errors/Warnings with '' @ [CHR 0x27] @ ''Spotify'' @ [CHR 0x27] @ '':''],
            recent_spotify_errors :=
               Some (concat (outfile (scan loads start (rev lines))))\<rparr>)"

subsection \<open>Notions used to state the properties\<close>

text \<open>
  What one line contributes: the strings the body of the loop writes for it, and what
  it adds to the counter.
\<close>

definition written :: "(string \<Rightarrow> json option) \<Rightarrow> string \<Rightarrow> string list" where
  "written loads line = outfile (body loads start line)"

definition counted :: "(string \<Rightarrow> json option) \<Rightarrow> string \<Rightarrow> nat" where
  "counted loads line = count (body loads start line)"

text \<open>
  The lines the script selects: the raw text passes the lexical test, the line decodes,
  the decoded value has a \<^verbatim>\<open>get\<close> method, and \<^verbatim>\<open>'Spotify' in msg\<close> is true.
\<close>

definition selected :: "(string \<Rightarrow> json option) \<Rightarrow> string \<Rightarrow> bool" where
  "selected loads line \<longleftrightarrow>
     prefilter line \<and>
     (case loads line of
        None \<Rightarrow> False
      | Some entry \<Rightarrow>
          (case py_get entry ''@mt'' (JStr '''') of
             Inl e \<Rightarrow> False
           | Inr msg \<Rightarrow> py_in ''Spotify'' msg = Inr True))"

text \<open>The values \<^verbatim>\<open>v[:500]\<close> accepts, and the lines whose \<^verbatim>\<open>@x\<close>, if any, is one.\<close>

fun sliceable :: "json \<Rightarrow> bool" where
  "sliceable (JStr s) = True"
| "sliceable (JList xs) = True"
| "sliceable _ = False"

definition x_sliceable :: "(string \<Rightarrow> json option) \<Rightarrow> string \<Rightarrow> bool" where
  "x_sliceable loads line =
     (case loads line of
        None \<Rightarrow> True
      | Some entry \<Rightarrow>
          (case py_getitem entry ''@x'' of Inl e \<Rightarrow> True | Inr xv \<Rightarrow> sliceable xv))"

text \<open>
  The format of a record: the main line, then the \<^verbatim>\<open>Status\<close> and \<^verbatim>\<open>Response\<close>
  lines of the fields that are present. The \<^verbatim>\<open>Exception\<close> line follows them.
\<close>

definition field_line :: "string \<Rightarrow> (string \<times> json) list \<Rightarrow> string list" where
  "field_line key kvs =
     (case map_of kvs key of
        None \<Rightarrow> []
      | Some v \<Rightarrow> [''   '' @ key @ '': '' @ py_str v @ ''\<newline>''])"

definition record_head :: "(string \<times> json) list \<Rightarrow> string list" where
  "record_head kvs =
     (''['' @ py_str (dict_get kvs ''@t'' JNull) @ ''] '' @ py_str (dict_get kvs ''@l'' JNull) @
      '': '' @ py_str (dict_get kvs ''@mt'' (JStr '''')) @ ''\<newline>'')
     # field_line ''Status'' kvs @ field_line ''Response'' kvs"

definition exception_text :: "json \<Rightarrow> string" where
  "exception_text x = ''   Exception: '' @ py_str x @ ''...\<newline>''"

subsection \<open>Sample log lines\<close>

text \<open>
  Lines of a log in the compact JSON format the script reads, each with the newline
  \<^verbatim>\<open>readlines\<close> leaves at its end, and what \<^verbatim>\<open>json.loads\<close> returns for each of them.
  \<open>sample_spaced\<close> has a space after the colon of its level; \<open>sample_nested\<close> has the
  level \<^verbatim>\<open>Information\<close> and an inner object with a level of its own; \<open>sample_broken\<close>
  lacks its closing brace, so \<^verbatim>\<open>json.loads\<close> raises on it; \<open>sample_null_x\<close> has
  \<^verbatim>\<open>null\<close> for its exception; the exception of \<open>sample_long_x\<close> has 501 characters.
  The examples apply \<open>loads_sample\<close> to these lines only; on any other text it
  answers \<open>None\<close>.
\<close>

definition sample_error :: string where
  \<open>sample_error = ''{"@t":"2025-12-26T10:15:00Z","@mt":"Spotify request failed","@l":"Error","Status":429,"@x":"System.TimeoutException"}\<newline>''\<close>

definition sample_warning :: string where
  \<open>sample_warning = ''{"@t":"2025-12-26T10:14:00Z","@mt":"Spotify token expired","@l":"Warning"}\<newline>''\<close>

definition sample_spaced :: string where
  \<open>sample_spaced = ''{"@t":"2025-12-26T10:16:00Z","@mt":"Spotify request failed","@l": "Error"}\<newline>''\<close>

definition sample_nested :: string where
  \<open>sample_nested = ''{"@t":"2025-12-26T10:17:00Z","@mt":"Spotify token refreshed","@l":"Information","Scope":{"@l":"Error"}}\<newline>''\<close>

definition sample_other :: string where
  \<open>sample_other = ''{"@t":"2025-12-26T10:18:00Z","@mt":"Database connection lost","@l":"Error"}\<newline>''\<close>

definition sample_broken :: string where
  \<open>sample_broken = ''{"@t":"2025-12-26T10:19:00Z","@mt":"Spotify request failed","@l":"Error"\<newline>''\<close>

definition sample_null_x :: string where
  \<open>sample_null_x = ''{"@t":"2025-12-26T10:20:00Z","@mt":"Spotify rate limited","@l":"Warning","@x":null}\<newline>''\<close>

definition sample_long_x :: string where
  \<open>sample_long_x = ''{"@t":"2025-12-26T10:21:00Z","@mt":"Spotify playback crashed","@l":"Error","@x":"'' @ replicate 501 (CHR ''E'') @ ''"}\<newline>''\<close>

definition loads_sample :: "string \<Rightarrow> json option" where
  "loads_sample line =
     (if line = sample_error then
        Some (JDict [(''@t'', JStr ''2025-12-26T10:15:00Z''),
                     (''@mt'', JStr ''Spotify request failed''),
                     (''@l'', JStr ''Error''), (''Status'', JInt 429),
                     (''@x'', JStr ''System.TimeoutException'')])
      else if line = sample_warning then
        Some (JDict [(''@t'', JStr ''2025-12-26T10:14:00Z''),
                     (''@mt'', JStr ''Spotify token expired''),
                     (''@l'', JStr ''Warning'')])
      else if line = sample_spaced then
        Some (JDict [(''@t'', JStr ''2025-12-26T10:16:00Z''),
                     (''@mt'', JStr ''Spotify request failed''),
                     (''@l'', JStr ''Error'')])
      else if line = sample_nested then
        Some (JDict [(''@t'', JStr ''2025-12-26T10:17:00Z''),
                     (''@mt'', JStr ''Spotify token refreshed''),
                     (''@l'', JStr ''Information''),
                     (''Scope'', JDict [(''@l'', JStr ''Error'')])])
      else if line = sample_other then
        Some (JDict [(''@t'', JStr ''2025-12-26T10:18:00Z''),
                     (''@mt'', JStr ''Database connection lost''),
                     (''@l'', JStr ''Error'')])
      else if line = sample_null_x then
        Some (JDict [(''@t'', JStr ''2025-12-26T10:20:00Z''),
                     (''@mt'', JStr ''Spotify rate limited''),
                     (''@l'', JStr ''Warning''), (''@x'', JNull)])
      else if line = sample_long_x then
        Some (JDict [(''@t'', JStr ''2025-12-26T10:21:00Z''),
                     (''@mt'', JStr ''Spotify playback crashed''),
                     (''@l'', JStr ''Error''),
                     (''@x'', JStr (replicate 501 (CHR ''E'')))])
      else None)"

section \<open>Properties\<close>

subsection \<open>The statements of the \<^verbatim>\<open>try\<close> block\<close>

lemma in_keys: "k \<in> fst ` set kvs \<longleftrightarrow> map_of kvs k \<noteq> None"
  by (simp add: map_of_eq_None_iff)

lemma main_stmt:
  "outfile_write (main_line (JDict kvs) (dict_get kvs ''@mt'' (JStr ''''))) st =
     (None, st\<lparr>outfile := outfile st @ [hd (record_head kvs)]\<rparr>)"
  by (simp add: outfile_write_def main_line_def and_then_def record_head_def)

lemma field_stmt:
  "if_stmt (py_in key (JDict kvs))
     (outfile_write (and_then (py_getitem (JDict kvs) key)
        (\<lambda>v. Inr (''   '' @ key @ '': '' @ py_str v @ ''\<newline>'')))) st =
   (None, st\<lparr>outfile := outfile st @ field_line key kvs\<rparr>)"
  by (cases "map_of kvs key")
    (simp_all add: if_stmt_def pass_def outfile_write_def and_then_def field_line_def in_keys)

lemma status_stmt:
  "if_stmt (py_in ''Status'' (JDict kvs)) (outfile_write (status_line (JDict kvs))) st =
   (None, st\<lparr>outfile := outfile st @ field_line ''Status'' kvs\<rparr>)"
  using field_stmt [of "''Status''" kvs st] by (simp add: status_line_def)

lemma response_stmt:
  "if_stmt (py_in ''Response'' (JDict kvs)) (outfile_write (response_line (JDict kvs))) st =
   (None, st\<lparr>outfile := outfile st @ field_line ''Response'' kvs\<rparr>)"
  using field_stmt [of "''Response''" kvs st] by (simp add: response_line_def)

lemma exception_stmt:
  "if_stmt (py_in ''@x'' (JDict kvs)) (outfile_write (exception_line (JDict kvs))) st =
     (case map_of kvs ''@x'' of
        None \<Rightarrow> (None, st)
      | Some xv \<Rightarrow>
          (case py_slice 500 xv of
             Inl e \<Rightarrow> (Some e, st)
           | Inr x \<Rightarrow> (None, st\<lparr>outfile := outfile st @ [exception_text x]\<rparr>)))"
  by (cases "map_of kvs ''@x''")
    (simp_all add: if_stmt_def pass_def outfile_write_def and_then_def exception_line_def
      exception_text_def in_keys split: sum.splits)

subsection \<open>One line of the loop\<close>

text \<open>A line that is not selected leaves the state as it is.\<close>

lemma not_selected:
  assumes "\<not> selected loads line"
  shows "body loads st line = st"
proof (cases "prefilter line")
  case False
  then show ?thesis by (simp add: body_def)
next
  case pre: True
  show ?thesis
  proof (cases "loads line")
    case None
    with pre show ?thesis by (simp add: body_def try_block_def raise_def)
  next
    case (Some entry)
    show ?thesis
    proof (cases "py_get entry ''@mt'' (JStr '''')")
      case (Inl e)
      with pre Some show ?thesis by (simp add: body_def try_block_def raise_def)
    next
      case (Inr msg)
      with assms pre Some have "py_in ''Spotify'' msg \<noteq> Inr True"
        by (simp add: selected_def)
      then have "snd (if_stmt (py_in ''Spotify'' msg) s st) = st" for s
        by (cases "py_in ''Spotify'' msg") (auto simp: if_stmt_def raise_def pass_def)
      with pre Some Inr show ?thesis by (simp add: body_def try_block_def)
    qed
  qed
qed

lemma py_get_dict: "py_get entry k d = Inr v \<Longrightarrow> \<exists>kvs. entry = JDict kvs"
  by (cases entry) simp_all

lemma selected_dict:
  assumes "selected loads line"
  shows "\<exists>kvs. loads line = Some (JDict kvs)"
proof (cases "loads line")
  case None
  with assms show ?thesis by (simp add: selected_def)
next
  case (Some entry)
  with assms obtain msg where "py_get entry ''@mt'' (JStr '''') = Inr msg"
    by (cases "py_get entry ''@mt'' (JStr '''')") (simp_all add: selected_def)
  with Some show ?thesis by (auto dest: py_get_dict)
qed

text \<open>
  The \<^verbatim>\<open>try\<close> block on a selected line: the head of the record is written; then
  either there is no \<^verbatim>\<open>@x\<close> and the counter is incremented, or the slice of \<^verbatim>\<open>@x\<close>
  raises and the block is left, or the \<^verbatim>\<open>Exception\<close> line is written and the counter
  is incremented.
\<close>

lemma try_block_selected:
  assumes "selected loads line" and "loads line = Some (JDict kvs)"
  shows "try_block loads line st =
     (case map_of kvs ''@x'' of
        None \<Rightarrow> (None, st\<lparr>outfile := outfile st @ record_head kvs, count := count st + 1\<rparr>)
      | Some xv \<Rightarrow>
          (case py_slice 500 xv of
             Inl e \<Rightarrow> (Some e, st\<lparr>outfile := outfile st @ record_head kvs\<rparr>)
           | Inr x \<Rightarrow>
               (None, st\<lparr>outfile := outfile st @ record_head kvs @ [exception_text x],
                         count := count st + 1\<rparr>)))"
proof -
  let ?msg = "dict_get kvs ''@mt'' (JStr '''')"
  from assms have sp: "py_in ''Spotify'' ?msg = Inr True"
    by (simp add: selected_def)
  let ?entry = "JDict kvs"
  let ?tail = "seq (if_stmt (py_in ''@x'' ?entry) (outfile_write (exception_line ?entry))) incr_count"
  define st1 where "st1 = st\<lparr>outfile := outfile st @ [hd (record_head kvs)]\<rparr>"
  define st2 where "st2 = st1\<lparr>outfile := outfile st1 @ field_line ''Status'' kvs\<rparr>"
  define st3' where "st3' = st2\<lparr>outfile := outfile st2 @ field_line ''Response'' kvs\<rparr>"
  define st3 where "st3 = st\<lparr>outfile := outfile st @ record_head kvs\<rparr>"
  have s1: "outfile_write (main_line ?entry ?msg) st = (None, st1)"
    unfolding st1_def by (rule main_stmt)
  have s2: "if_stmt (py_in ''Status'' ?entry) (outfile_write (status_line ?entry)) st1 = (None, st2)"
    unfolding st2_def by (rule status_stmt)
  have s3: "if_stmt (py_in ''Response'' ?entry) (outfile_write (response_line ?entry)) st2 = (None, st3')"
    unfolding st3'_def by (rule response_stmt)
  have eq3: "st3' = st3"
    by (simp add: st3'_def st2_def st1_def st3_def record_head_def)
  have "try_block loads line =
    if_stmt (py_in ''Spotify'' ?msg)
       (seq (outfile_write (main_line ?entry ?msg))
        (seq (if_stmt (py_in ''Status'' ?entry) (outfile_write (status_line ?entry)))
        (seq (if_stmt (py_in ''Response'' ?entry) (outfile_write (response_line ?entry)))
         ?tail)))"
    unfolding try_block_def assms(2) by simp
  then have "try_block loads line st =
    seq (outfile_write (main_line ?entry ?msg))
        (seq (if_stmt (py_in ''Status'' ?entry) (outfile_write (status_line ?entry)))
        (seq (if_stmt (py_in ''Response'' ?entry) (outfile_write (response_line ?entry)))
         ?tail)) st"
    by (simp only: sp if_stmt_def sum.case if_True)
  also have "\<dots> = ?tail st3"
    by (simp only: seq_def [of "outfile_write _"] seq_def [of "if_stmt (py_in ''Status'' _) _"]
        seq_def [of "if_stmt (py_in ''Response'' _) _"] s1 s2 s3 eq3 prod.case option.case)
  also have "\<dots> =
     (case map_of kvs ''@x'' of
        None \<Rightarrow> (None, st3\<lparr>count := count st3 + 1\<rparr>)
      | Some xv \<Rightarrow>
          (case py_slice 500 xv of
             Inl e \<Rightarrow> (Some e, st3)
           | Inr x \<Rightarrow> (None, st3\<lparr>outfile := outfile st3 @ [exception_text x],
                        count := count st3 + 1\<rparr>)))"
    by (simp add: seq_def exception_stmt incr_count_def del: py_in.simps
        split: option.splits sum.splits)
  finally show ?thesis by (simp add: st3_def split: option.splits sum.splits)
qed

lemma body_selected:
  assumes "selected loads line" and "loads line = Some (JDict kvs)"
  shows "body loads st line =
     (case map_of kvs ''@x'' of
        None \<Rightarrow> st\<lparr>outfile := outfile st @ record_head kvs, count := count st + 1\<rparr>
      | Some xv \<Rightarrow>
          (case py_slice 500 xv of
             Inl e \<Rightarrow> st\<lparr>outfile := outfile st @ record_head kvs\<rparr>
           | Inr x \<Rightarrow> st\<lparr>outfile := outfile st @ record_head kvs @ [exception_text x],
                        count := count st + 1\<rparr>))"
proof -
  from assms(1) have "prefilter line" by (simp add: selected_def)
  then show ?thesis
    by (simp add: body_def try_block_selected [OF assms] split: option.splits sum.splits)
qed

text \<open>What a line does to the state depends on the line alone.\<close>

lemma body_eq:
  "body loads st line =
     st\<lparr>outfile := outfile st @ written loads line, count := count st + counted loads line\<rparr>"
proof (cases "selected loads line")
  case False
  then show ?thesis by (simp add: not_selected written_def counted_def start_def)
next
  case True
  then obtain kvs where k: "loads line = Some (JDict kvs)" using selected_dict by blast
  show ?thesis
    by (simp add: written_def counted_def body_selected [OF True k] start_def
        split: option.splits sum.splits)
qed

lemma not_selected_written: "\<not> selected loads line \<Longrightarrow> written loads line = []"
  by (simp add: written_def not_selected start_def)



lemma sliceable_slice: "sliceable xv \<Longrightarrow> \<exists>x. py_slice n xv = Inr x"
  by (cases xv) simp_all

lemma selected_counted:
  assumes "selected loads line" "x_sliceable loads line"
  shows "counted loads line = 1"
proof -
  from assms(1) obtain kvs where k: "loads line = Some (JDict kvs)" using selected_dict by blast
  show ?thesis
  proof (cases "map_of kvs ''@x''")
    case None
    then show ?thesis
      by (simp add: counted_def body_selected [OF assms(1) k] start_def)
  next
    case (Some xv)
    with assms(2) k have "sliceable xv" by (simp add: x_sliceable_def)
    then obtain x where "py_slice 500 xv = Inr x" using sliceable_slice by blast
    with Some show ?thesis
      by (simp add: counted_def body_selected [OF assms(1) k] start_def)
  qed
qed


text \<open>The record of a selected line, in the format of the four f-strings.\<close>

lemma written_selected:
  assumes "selected loads line" and "loads line = Some (JDict kvs)"
  shows "written loads line =
     record_head kvs @
     (case map_of kvs ''@x'' of
        None \<Rightarrow> []
      | Some xv \<Rightarrow> (case py_slice 500 xv of Inl e \<Rightarrow> [] | Inr x \<Rightarrow> [exception_text x]))"
  by (simp add: written_def body_selected [OF assms] start_def
      split: option.splits sum.splits)

subsection \<open>The loop\<close>

lemma scan_stops: "count st \<ge> 30 \<Longrightarrow> scan loads st ls = st"
  by (cases ls) simp_all

lemma scan_append: "scan loads st (xs @ ys) = scan loads (scan loads st xs) ys"
  by (induction xs arbitrary: st) (simp_all add: scan_stops)

text \<open>A line that the body ignores can be left out of the list.\<close>

lemma scan_skip:
  assumes "\<And>st. body loads st line = st"
  shows "scan loads st (xs @ line # ys) = scan loads st (xs @ ys)"
proof -
  have "scan loads st' (line # ys) = scan loads st' ys" for st'
    by (cases "count st' \<ge> 30") (simp_all add: scan_stops assms)
  then show ?thesis by (simp add: scan_append)
qed



text \<open>A line that is written but not counted, repeated.\<close>

lemma scan_uncounted:
  assumes "counted loads line = 0" and "count st < 30"
  shows "scan loads st (replicate n line) =
     st\<lparr>outfile := outfile st @ concat (replicate n (written loads line))\<rparr>"
  using assms(2)
proof (induction n arbitrary: st)
  case 0
  show ?case by simp
next
  case (Suc n)
  define st' where "st' = body loads st line"
  have st': "st' = st\<lparr>outfile := outfile st @ written loads line\<rparr>"
    using assms(1) by (simp add: st'_def body_eq)
  with Suc.prems have "count st' < 30" by simp
  then have "scan loads st' (replicate n line) =
     st'\<lparr>outfile := outfile st' @ concat (replicate n (written loads line))\<rparr>"
    by (rule Suc.IH)
  moreover have "scan loads st (replicate (Suc n) line) = scan loads st' (replicate n line)"
    using Suc.prems by (simp add: st'_def)
  ultimately show ?case using st' by simp
qed

subsection \<open>The sample lines\<close>

lemmas sample_defs = sample_error_def sample_warning_def sample_spaced_def sample_nested_def
  sample_other_def sample_broken_def sample_null_x_def sample_long_x_def

lemma loads_error:
  "loads_sample sample_error =
     Some (JDict [(''@t'', JStr ''2025-12-26T10:15:00Z''),
                  (''@mt'', JStr ''Spotify request failed''),
                  (''@l'', JStr ''Error''), (''Status'', JInt 429),
                  (''@x'', JStr ''System.TimeoutException'')])"
  by (simp add: loads_sample_def)

lemma loads_warning:
  "loads_sample sample_warning =
     Some (JDict [(''@t'', JStr ''2025-12-26T10:14:00Z''),
                  (''@mt'', JStr ''Spotify token expired''),
                  (''@l'', JStr ''Warning'')])"
  by (simp add: loads_sample_def sample_defs)

lemma loads_spaced:
  "loads_sample sample_spaced =
     Some (JDict [(''@t'', JStr ''2025-12-26T10:16:00Z''),
                  (''@mt'', JStr ''Spotify request failed''),
                  (''@l'', JStr ''Error'')])"
  by (simp add: loads_sample_def sample_defs)

lemma loads_nested:
  "loads_sample sample_nested =
     Some (JDict [(''@t'', JStr ''2025-12-26T10:17:00Z''),
                  (''@mt'', JStr ''Spotify token refreshed''),
                  (''@l'', JStr ''Information''),
                  (''Scope'', JDict [(''@l'', JStr ''Error'')])])"
  by (simp add: loads_sample_def sample_defs)

lemma loads_other:
  "loads_sample sample_other =
     Some (JDict [(''@t'', JStr ''2025-12-26T10:18:00Z''),
                  (''@mt'', JStr ''Database connection lost''),
                  (''@l'', JStr ''Error'')])"
  by (simp add: loads_sample_def sample_defs)

lemma loads_broken: "loads_sample sample_broken = None"
  by (simp add: loads_sample_def sample_defs)

lemma loads_null_x:
  "loads_sample sample_null_x =
     Some (JDict [(''@t'', JStr ''2025-12-26T10:20:00Z''),
                  (''@mt'', JStr ''Spotify rate limited''),
                  (''@l'', JStr ''Warning''), (''@x'', JNull)])"
  by (simp add: loads_sample_def sample_defs)


lemma prefilter_error: "prefilter sample_error"
  by (simp add: prefilter_def sample_defs sublist_code)

lemma prefilter_warning: "prefilter sample_warning"
  by (simp add: prefilter_def sample_defs sublist_code)

lemma prefilter_spaced: "\<not> prefilter sample_spaced"
  by (simp add: prefilter_def sample_defs sublist_code)

lemma prefilter_nested: "prefilter sample_nested"
  by (simp add: prefilter_def sample_defs sublist_code)

lemma prefilter_other: "prefilter sample_other"
  by (simp add: prefilter_def sample_defs sublist_code)

lemma prefilter_broken: "prefilter sample_broken"
  by (simp add: prefilter_def sample_defs sublist_code)

lemma prefilter_null_x: "prefilter sample_null_x"
  by (simp add: prefilter_def sample_defs sublist_code)


lemma selected_error: "selected loads_sample sample_error"
  by (simp add: selected_def prefilter_error loads_error dict_get_def sublist_code)

lemma selected_warning: "selected loads_sample sample_warning"
  by (simp add: selected_def prefilter_warning loads_warning dict_get_def sublist_code)

lemma selected_nested: "selected loads_sample sample_nested"
  by (simp add: selected_def prefilter_nested loads_nested dict_get_def sublist_code)

lemma selected_null_x: "selected loads_sample sample_null_x"
  by (simp add: selected_def prefilter_null_x loads_null_x dict_get_def sublist_code)



lemma str_nat_429: "str_nat 429 = ''429''"
  by (simp add: str_nat.simps digit_char_def)

lemma written_error:
  "written loads_sample sample_error =
     [''[2025-12-26T10:15:00Z] Error: Spotify request failed\<newline>'',
      ''   Status: 429\<newline>'',
      ''   Exception: System.TimeoutException...\<newline>'']"
  by (simp add: written_def body_selected [OF selected_error loads_error] start_def
      record_head_def field_line_def dict_get_def exception_text_def py_str_def str_int_def
      str_nat_429)

lemma written_warning:
  "written loads_sample sample_warning =
     [''[2025-12-26T10:14:00Z] Warning: Spotify token expired\<newline>'']"
  by (simp add: written_def body_selected [OF selected_warning loads_warning] start_def
      record_head_def field_line_def dict_get_def py_str_def)

lemma written_nested:
  "written loads_sample sample_nested =
     [''[2025-12-26T10:17:00Z] Information: Spotify token refreshed\<newline>'']"
  by (simp add: written_def body_selected [OF selected_nested loads_nested] start_def
      record_head_def field_line_def dict_get_def py_str_def)



section \<open>The claims\<close>

subsection \<open>The missing log file\<close>

text \<open>
  Claim C4. If the input file does not exist, the script prints \<^verbatim>\<open>Log file not found\<close>
  and leaves at once: nothing else is printed, and the output file is neither created
  nor changed (the world is the same but for the line printed and the exit).
\<close>

theorem missing_log_file:
  assumes "log_file w = None"
  shows "run loads w = w\<lparr>stdout := stdout w @ [''Log file not found''], exited := True\<rparr> \<and>
         recent_spotify_errors (run loads w) = recent_spotify_errors w"
  using assms by (simp add: run_def)

theorem missing_log_file_witness:
  "run loads_sample
     \<lparr>log_file = None, recent_spotify_errors = Some ''earlier output'', stdout = [],
      exited = False\<rparr> =
     \<lparr>log_file = None, recent_spotify_errors = Some ''earlier output'',
      stdout = [''Log file not found''], exited = True\<rparr>"
  using missing_log_file [of "\<lparr>log_file = None, recent_spotify_errors = Some ''earlier output'',
      stdout = [], exited = False\<rparr>" loads_sample]
  by simp

subsection \<open>The lexical test\<close>

text \<open>
  Claim C7. A line is considered only if its raw text contains \<^verbatim>\<open>"@l":"Error"\<close> or
  \<^verbatim>\<open>"@l":"Warning"\<close>: a line that contains neither leaves the state of the loop as it
  is, whatever \<^verbatim>\<open>json.loads\<close> would make of it, and the loop goes on with the next
  line. The witness is a line whose level is written \<^verbatim>\<open>"@l": "Error"\<close>, with a space:
  it decodes to an entry of level \<^verbatim>\<open>Error\<close> about Spotify, and is not matched.
\<close>

theorem prefilter_is_lexical:
  assumes \<open>\<not> sublist ''"@l":"Error"'' line\<close> and \<open>\<not> sublist ''"@l":"Warning"'' line\<close>
  shows "body loads st line = st \<and> scan loads st (line # rest) = scan loads st rest"
proof -
  from assms have "\<not> prefilter line" by (simp add: prefilter_def)
  then have b: "body loads st line = st" by (simp add: body_def)
  then show ?thesis by (simp add: scan_stops)
qed

theorem prefilter_is_lexical_witness:
  \<open>\<not> sublist ''"@l":"Error"'' sample_spaced \<and> \<not> sublist ''"@l":"Warning"'' sample_spaced \<and>
   sublist ''"@l": "Error"'' sample_spaced \<and>
   loads_sample sample_spaced =
     Some (JDict [(''@t'', JStr ''2025-12-26T10:16:00Z''),
                  (''@mt'', JStr ''Spotify request failed''),
                  (''@l'', JStr ''Error'')]) \<and>
   body loads_sample start sample_spaced = start \<and>
   scan loads_sample start [sample_spaced, sample_error] = scan loads_sample start [sample_error]\<close>
proof -
  have 1: \<open>\<not> sublist ''"@l":"Error"'' sample_spaced\<close>
    and 2: \<open>\<not> sublist ''"@l":"Warning"'' sample_spaced\<close>
    using prefilter_spaced by (simp_all add: prefilter_def)
  have 3: \<open>sublist ''"@l": "Error"'' sample_spaced\<close>
    by (simp add: sample_spaced_def sublist_code)
  from prefilter_is_lexical [where loads = loads_sample and line = sample_spaced
      and st = start and rest = "[sample_error]", OF 1 2] 1 2 3 loads_spaced
  show ?thesis by simp
qed

subsection \<open>Lines that do not decode\<close>

text \<open>
  Claim C5. A line that passes the lexical test and on which \<^verbatim>\<open>json.loads\<close> raises is
  dropped: the \<^verbatim>\<open>try\<close> block raises before it writes, the body leaves the output and
  the counter as they are, the loop goes on with the lines that follow, and the script
  ends as it does on the file without that line: same output file, no line printed
  but the two every run prints, no exit.
\<close>

theorem malformed_line_dropped:
  assumes "prefilter line" and "loads line = None"
  shows "try_block loads line st = (Some JSONDecodeError, st) \<and>
     body loads st line = st \<and>
     scan loads st (line # rest) = scan loads st rest \<and>
     recent_spotify_errors (run loads (w\<lparr>log_file := Some (before @ line # after)\<rparr>)) =
       recent_spotify_errors (run loads (w\<lparr>log_file := Some (before @ after)\<rparr>)) \<and>
     stdout (run loads (w\<lparr>log_file := Some (before @ line # after)\<rparr>)) =
       stdout w @
       [''Total lines: '' @ str_nat (length (before @ line # after)),
        ''Last 10 Errors/Warnings with '' @ [CHR 0x27] @ ''Spotify'' @ [CHR 0x27] @ '':''] \<and>
     exited (run loads (w\<lparr>log_file := Some (before @ line # after)\<rparr>)) = exited w"
proof -
  from assms have t: "try_block loads line st' = (Some JSONDecodeError, st')" for st'
    by (simp add: try_block_def raise_def)
  with assms(1) have b: "body loads st' line = st'" for st'
    by (simp add: body_def)
  have "scan loads start (rev after @ line # rev before) = scan loads start (rev after @ rev before)"
    using b by (rule scan_skip)
  with t b show ?thesis by (simp add: run_def scan_stops)
qed

theorem malformed_line_dropped_witness:
  "prefilter sample_broken \<and> loads_sample sample_broken = None \<and>
   body loads_sample start sample_broken = start \<and>
   scan loads_sample start [sample_broken, sample_warning] =
     scan loads_sample start [sample_warning] \<and>
   recent_spotify_errors (run loads_sample
       \<lparr>log_file = Some [sample_warning, sample_broken], recent_spotify_errors = None,
        stdout = [], exited = False\<rparr>) =
     Some ''[2025-12-26T10:14:00Z] Warning: Spotify token expired\<newline>''"
proof -
  let ?w = "\<lparr>log_file = None, recent_spotify_errors = None, stdout = [], exited = False\<rparr>"
  have "scan loads_sample start [sample_warning] =
      \<lparr>outfile = [''[2025-12-26T10:14:00Z] Warning: Spotify token expired\<newline>''], count = 1\<rparr>"
    using selected_counted [OF selected_warning]
    by (simp add: start_def body_eq written_warning x_sliceable_def loads_warning)
  with malformed_line_dropped [where loads = loads_sample and line = sample_broken
      and st = start and rest = "[sample_warning]" and w = ?w and before = "[sample_warning]"
      and after = "[]", OF prefilter_broken loads_broken]
    prefilter_broken loads_broken
  show ?thesis by (simp add: run_def)
qed

subsection \<open>The message\<close>

text \<open>
  Claim C6. For a line that passes the lexical test and decodes, with \<open>msg\<close> its
  \<^verbatim>\<open>@mt\<close> field or the empty string when it has none: if \<^verbatim>\<open>'Spotify' in msg\<close> is
  not true, nothing is written for the line and the counter stays as it is. For a
  message that is a string, \<^verbatim>\<open>in\<close> is the substring test (the first equation of
  \<^const>\<open>py_in\<close>); the statement also covers a message of another type, for which
  \<^verbatim>\<open>in\<close> is false or raises.
\<close>

theorem message_without_spotify:
  assumes "prefilter line" and "loads line = Some entry"
    and "py_get entry ''@mt'' (JStr '''') = Inr msg"
    and "py_in ''Spotify'' msg \<noteq> Inr True"
  shows "body loads st line = st"
proof -
  from assms have "\<not> selected loads line" by (simp add: selected_def)
  then show ?thesis by (rule not_selected)
qed

theorem message_without_spotify_witness:
  "prefilter sample_other \<and>
   loads_sample sample_other =
     Some (JDict [(''@t'', JStr ''2025-12-26T10:18:00Z''),
                  (''@mt'', JStr ''Database connection lost''),
                  (''@l'', JStr ''Error'')]) \<and>
   \<not> sublist ''Spotify'' ''Database connection lost'' \<and>
   body loads_sample start sample_other = start"
proof -
  have 1: "py_get (JDict [(''@t'', JStr ''2025-12-26T10:18:00Z''),
                  (''@mt'', JStr ''Database connection lost''),
                  (''@l'', JStr ''Error'')]) ''@mt'' (JStr '''') = Inr (JStr ''Database connection lost'')"
    by (simp add: dict_get_def)
  have 2: "\<not> sublist ''Spotify'' ''Database connection lost''"
    by (simp add: sublist_code)
  then have 3: "py_in ''Spotify'' (JStr ''Database connection lost'') \<noteq> Inr True"
    by simp
  from message_without_spotify [where loads = loads_sample and line = sample_other
      and st = start, OF prefilter_other loads_other 1 3]
    prefilter_other loads_other 2
  show ?thesis by simp
qed

subsection \<open>The level of the lines written\<close>

text \<open>
  The script never looks at the \<^verbatim>\<open>@l\<close> field of the decoded entry, only at the raw
  text. \<open>sample_nested\<close> has the level \<^verbatim>\<open>Information\<close>; its raw text contains
  \<^verbatim>\<open>"@l":"Error"\<close> inside an inner object, so the line passes the lexical test, and
  since its message has \<^verbatim>\<open>Spotify\<close> in it, its record is written, with the level
  \<^verbatim>\<open>Information\<close>. So claim C2 does not hold as it is stated.
\<close>

theorem level_counterexample:
  \<open>sublist ''"@l":"Error"'' sample_nested \<and>
   loads_sample sample_nested =
     Some (JDict [(''@t'', JStr ''2025-12-26T10:17:00Z''),
                  (''@mt'', JStr ''Spotify token refreshed''),
                  (''@l'', JStr ''Information''),
                  (''Scope'', JDict [(''@l'', JStr ''Error'')])]) \<and>
   py_get (JDict [(''@t'', JStr ''2025-12-26T10:17:00Z''),
                  (''@mt'', JStr ''Spotify token refreshed''),
                  (''@l'', JStr ''Information''),
                  (''Scope'', JDict [(''@l'', JStr ''Error'')])]) ''@l'' JNull =
     Inr (JStr ''Information'') \<and>
   written loads_sample sample_nested =
     [''[2025-12-26T10:17:00Z] Information: Spotify token refreshed\<newline>''] \<and>
   recent_spotify_errors (run loads_sample
       \<lparr>log_file = Some [sample_nested], recent_spotify_errors = None, stdout = [],
        exited = False\<rparr>) =
     Some ''[2025-12-26T10:17:00Z] Information: Spotify token refreshed\<newline>''\<close>
proof -
  have 1: \<open>sublist ''"@l":"Error"'' sample_nested\<close>
    by (simp add: sample_nested_def sublist_code)
  have "body loads_sample start sample_nested =
      start\<lparr>outfile := outfile start @ written loads_sample sample_nested,
            count := count start + counted loads_sample sample_nested\<rparr>"
    by (rule body_eq)
  then have "outfile (scan loads_sample start [sample_nested]) =
      [''[2025-12-26T10:17:00Z] Information: Spotify token refreshed\<newline>'']"
    by (simp add: start_def written_nested)
  with 1 show ?thesis
    by (simp add: loads_nested written_nested run_def dict_get_def)
qed

text \<open>
  Claim C2, as the script has it. Every line for which something is written passes the
  lexical test: its raw text contains \<^verbatim>\<open>"@l":"Error"\<close> or \<^verbatim>\<open>"@l":"Warning"\<close>; it
  also decodes to an object whose \<^verbatim>\<open>@mt\<close> has \<^verbatim>\<open>Spotify\<close> in it. So a line whose raw
  text contains neither substring is skipped entirely.
\<close>

theorem written_passes_prefilter:
  assumes "written loads line \<noteq> []"
  shows \<open>(sublist ''"@l":"Error"'' line \<or> sublist ''"@l":"Warning"'' line) \<and>
         (\<exists>kvs. loads line = Some (JDict kvs) \<and>
                py_in ''Spotify'' (dict_get kvs ''@mt'' (JStr '''')) = Inr True)\<close>
proof -
  have sel: "selected loads line"
    using assms not_selected_written by blast
  then obtain kvs where k: "loads line = Some (JDict kvs)" using selected_dict by blast
  with sel show ?thesis by (simp add: selected_def prefilter_def)
qed

theorem written_passes_prefilter_witness:
  \<open>written loads_sample sample_error \<noteq> [] \<and>
   (sublist ''"@l":"Error"'' sample_error \<or> sublist ''"@l":"Warning"'' sample_error) \<and>
   written loads_sample sample_spaced = []\<close>
proof -
  have 1: "written loads_sample sample_error \<noteq> []" by (simp add: written_error)
  have "\<not> selected loads_sample sample_spaced"
    using prefilter_spaced by (simp add: selected_def)
  then have 2: "written loads_sample sample_spaced = []" by (rule not_selected_written)
  from written_passes_prefilter [where loads = loads_sample and line = sample_error, OF 1] 1 2
  show ?thesis by simp
qed

subsection \<open>The order of the records\<close>



subsection \<open>The text of the exception\<close>





subsection \<open>Records that are not counted\<close>

text \<open>
  Claim C10. When the slice of \<^verbatim>\<open>@x\<close> raises on a selected line (\<^verbatim>\<open>@x\<close> is
  \<^verbatim>\<open>null\<close>, a boolean, a number or an object), the \<^verbatim>\<open>try\<close> block is left with
  that exception after the main line and the \<^verbatim>\<open>Status\<close> and \<^verbatim>\<open>Response\<close> lines
  were written: they stay in the output, and the counter is not incremented. So the
  loop never stops on such lines: \<open>n\<close> of them give \<open>n\<close> records, for every \<open>n\<close>,
  and 31 of them give 31 main lines.
\<close>

theorem partial_record:
  assumes "selected loads line" and "loads line = Some (JDict kvs)"
    and "map_of kvs ''@x'' = Some xv" and "py_slice 500 xv = Inl e"
  shows "try_block loads line st = (Some e, st\<lparr>outfile := outfile st @ record_head kvs\<rparr>) \<and>
         body loads st line = st\<lparr>outfile := outfile st @ record_head kvs\<rparr> \<and>
         record_head kvs \<noteq> [] \<and>
         outfile (scan loads start (replicate n line)) = concat (replicate n (record_head kvs)) \<and>
         count (scan loads start (replicate n line)) = 0"
proof -
  from assms(3,4) have w: "written loads line = record_head kvs"
    and c: "counted loads line = 0"
    by (simp_all add: written_def counted_def body_selected [OF assms(1,2)] start_def)
  have "count start < 30" by (simp add: start_def)
  with c have "scan loads start (replicate n line) =
     start\<lparr>outfile := outfile start @ concat (replicate n (written loads line))\<rparr>"
    by (rule scan_uncounted)
  with w assms(3,4) show ?thesis
    by (simp add: try_block_selected [OF assms(1,2)] body_selected [OF assms(1,2)]
        start_def record_head_def)
qed

theorem partial_record_witness:
  "selected loads_sample sample_null_x \<and>
   py_slice 500 JNull = Inl TypeError \<and>
   outfile (scan loads_sample start (replicate 31 sample_null_x)) =
     replicate 31 ''[2025-12-26T10:20:00Z] Warning: Spotify rate limited\<newline>'' \<and>
   count (scan loads_sample start (replicate 31 sample_null_x)) = 0"
proof -
  have 3: "map_of [(''@t'', JStr ''2025-12-26T10:20:00Z''),
                  (''@mt'', JStr ''Spotify rate limited''),
                  (''@l'', JStr ''Warning''), (''@x'', JNull)] ''@x'' = Some JNull"
    by simp
  have 4: "py_slice 500 JNull = Inl TypeError" by simp
  have r: "record_head [(''@t'', JStr ''2025-12-26T10:20:00Z''),
                  (''@mt'', JStr ''Spotify rate limited''),
                  (''@l'', JStr ''Warning''), (''@x'', JNull)] =
        [''[2025-12-26T10:20:00Z] Warning: Spotify rate limited\<newline>'']"
    by (simp add: record_head_def field_line_def dict_get_def py_str_def)
  have cr: "concat (replicate n [x]) = replicate n x" for n and x :: string
    by (induction n) simp_all
  from partial_record [where loads = loads_sample and line = sample_null_x and st = start
      and n = 31, OF selected_null_x loads_null_x 3 4] selected_null_x 4
  show ?thesis by (simp only: r cr)
qed

subsection \<open>The cap of 30 records\<close>





end
